theory Spec2Isabelle
  imports Complex_Main
begin

section \<open>Python values, dictionaries and exceptions\<close>

text \<open>
  The two stages of the summarizer exchange dynamically typed data: the JSON bodies of the
  Hacker News API, the metadata dictionary of a Haystack \<open>Document\<close> and the reply
  dictionary of the generator. A value is one of the JSON shapes as Python's \<open>json\<close>
  module delivers them. Numbers with a fractional part are left out: the API delivers
  integers for \<open>score\<close>, \<open>descendants\<close> and \<open>time\<close>.
  A dictionary is an association list read with \<open>map_of\<close>; the empty dictionary is
  the empty list.
\<close>

datatype pyval =
    PNone
  | PBool bool
  | PInt int
  | PStr string
  | PList "pyval list"
  | PDict "(string \<times> pyval) list"

type_synonym pydict = "(string \<times> pyval) list"

text \<open>Python's truth value of an object, as \<open>not x\<close> and \<open>if x\<close> test it.\<close>

fun truthy :: "pyval \<Rightarrow> bool" where
  "truthy PNone = False"
| "truthy (PBool b) = b"
| "truthy (PInt i) = (i \<noteq> 0)"
| "truthy (PStr s) = (s \<noteq> [])"
| "truthy (PList xs) = (xs \<noteq> [])"
| "truthy (PDict d) = (d \<noteq> [])"

text \<open>\<open>d.get(k, default)\<close>; \<open>d.get(k)\<close> is \<open>dict_get d k PNone\<close>.\<close>

definition dict_get :: "pydict \<Rightarrow> string \<Rightarrow> pyval \<Rightarrow> pyval" where
  "dict_get d k dflt = (case map_of d k of None \<Rightarrow> dflt | Some v \<Rightarrow> v)"

text \<open>
  The exceptions that matter to the control flow. All of them are subclasses of
  \<open>Exception\<close>, so every \<open>except Exception\<close> of the source catches each of them.
\<close>

datatype exn =
    ClientError
  | TimeoutError
  | TypeError
  | ValueError
  | IndexError
  | KeyError
  | OSError
  | OtherError

text \<open>\<open>x[0]\<close> on a value: the first element of a list, the first character of a string.\<close>

fun py_index0 :: "pyval \<Rightarrow> exn + pyval" where
  "py_index0 (PList (x # xs)) = Inr x"
| "py_index0 (PList []) = Inl IndexError"
| "py_index0 (PStr (c # cs)) = Inr (PStr [c])"
| "py_index0 (PStr []) = Inl IndexError"
| "py_index0 (PDict d) = Inl KeyError"
| "py_index0 PNone = Inl TypeError"
| "py_index0 (PBool b) = Inl TypeError"
| "py_index0 (PInt i) = Inl TypeError"

text \<open>A Haystack \<open>Document\<close>, with the two fields the program sets and reads.\<close>

record document =
  content :: string
  meta :: pydict

section \<open>The summarization stage (pipeline.py)\<close>

text \<open>
  The constructor arguments of \<open>DocumentLoopProcessor\<close>. The temperature is only passed
  on to the generator; it is a rational number here.
\<close>

record config =
  api_key :: string
  model_name :: string
  temperature :: rat
  verbose :: bool

text \<open>
  What lies outside the program: the prompt builder and the generator. Both may raise.
  Each is asked once per iteration of the loop, and its answer may differ from one
  iteration to the next, so both take the position of the iteration in the input list.
  \<open>render\<close> is \<open>PromptBuilder(template, required_variables=["doc"]).run(doc=doc)["prompt"]\<close>;
  \<open>llm_run\<close> is the construction of \<open>OpenAIGenerator\<close> from the configuration followed by
  \<open>llm.run(prompt=prompt)\<close>, returning the reply dictionary.
\<close>

record gen_world =
  render :: "nat \<Rightarrow> string \<Rightarrow> document \<Rightarrow> exn + string"
  llm_run :: "nat \<Rightarrow> config \<Rightarrow> string \<Rightarrow> exn + pydict"

text \<open>A value stored in a result dictionary: the document object or a Python value.\<close>

datatype rvalue = RDoc document | RVal pyval

type_synonym result = "(string \<times> rvalue) list"

text \<open>
  Line 46:
  \<open>summary = response["replies"][0] if response.get("replies") else "Unable to generate summary"\<close>.
\<close>

definition summary_of :: "pydict \<Rightarrow> exn + pyval" where
  "summary_of response =
     (if truthy (dict_get response ''replies'' PNone)
      then (case map_of response ''replies'' of
              None \<Rightarrow> Inl KeyError
            | Some replies \<Rightarrow> py_index0 replies)
      else Inr (PStr ''Unable to generate summary''))"

text \<open>
  The statements of the \<open>try\<close> block (lines 35 to 51), up to the value appended to
  \<open>results\<close>; an exception of any of them leaves the block.
\<close>

definition try_block :: "config \<Rightarrow> gen_world \<Rightarrow> string \<Rightarrow> nat \<Rightarrow> document \<Rightarrow> exn + result" where
  "try_block cfg w template i doc =
     (case render w i template doc of
        Inl e \<Rightarrow> Inl e
      | Inr prompt \<Rightarrow>
          (case llm_run w i cfg prompt of
             Inl e \<Rightarrow> Inl e
           | Inr response \<Rightarrow>
               (case summary_of response of
                  Inl e \<Rightarrow> Inl e
                | Inr summary \<Rightarrow>
                    Inr [(''document'', RDoc doc), (''summary'', RVal summary)])))"

text \<open>
  One iteration (lines 34 to 58): the \<open>try\<close> block, and the \<open>except Exception\<close> handler
  that appends the error entry. The debug line printed when \<open>verbose\<close> is set is not
  modelled. The iteration returns the entry it appends.
\<close>

definition loop_body :: "config \<Rightarrow> gen_world \<Rightarrow> string \<Rightarrow> nat \<Rightarrow> document \<Rightarrow> result" where
  "loop_body cfg w template i doc =
     (case try_block cfg w template i doc of
        Inr entry \<Rightarrow> entry
      | Inl e \<Rightarrow>
          [(''document'', RDoc doc), (''summary'', RVal (PStr ''Error generating summary''))])"

text \<open>
  The \<open>for\<close> loop (lines 32 to 59) over the remaining documents, with the position of the
  next document and the list \<open>results\<close> built so far.
\<close>

fun for_loop ::
  "config \<Rightarrow> gen_world \<Rightarrow> string \<Rightarrow> nat \<Rightarrow> document list \<Rightarrow> result list \<Rightarrow> result list" where
  "for_loop cfg w template i [] results = results"
| "for_loop cfg w template i (doc # documents) results =
     for_loop cfg w template (Suc i) documents (results @ [loop_body cfg w template i doc])"

text \<open>
  \<open>DocumentLoopProcessor.run\<close>. Lines 28 to 30 read the template file; \<open>template_file\<close> is
  the outcome of that read, and a failure to read it is raised to the caller before the
  loop starts. The value returned is the list stored under the key \<open>results\<close>.
\<close>

definition DocumentLoopProcessor_run ::
  "config \<Rightarrow> gen_world \<Rightarrow> exn + string \<Rightarrow> document list \<Rightarrow> exn + result list" where
  "DocumentLoopProcessor_run cfg w template_file documents =
     (case template_file of
        Inl e \<Rightarrow> Inl e
      | Inr template \<Rightarrow> Inr (for_loop cfg w template 0 documents []))"

text \<open>
  The generation for the document at position \<open>i\<close>: the prompt is rendered and the
  generator is called. It fails when either raises.
\<close>

definition generation :: "config \<Rightarrow> gen_world \<Rightarrow> string \<Rightarrow> nat \<Rightarrow> document \<Rightarrow> exn + pydict" where
  "generation cfg w template i doc =
     (case render w i template doc of
        Inl e \<Rightarrow> Inl e
      | Inr prompt \<Rightarrow> llm_run w i cfg prompt)"

section \<open>Timestamps (datetime.fromtimestamp and isoformat)\<close>

text \<open>
  \<open>datetime.fromtimestamp(t, tz=timezone.utc)\<close> breaks epoch seconds into the fields of
  the proleptic Gregorian calendar in UTC. The day count is converted by the usual
  era arithmetic: an era is 400 years, that is 146097 days, and starts on a 1st of March.
\<close>

record datetime =
  year :: int
  month :: int
  day :: int
  hour :: int
  minute :: int
  second :: int

definition civil_from_days :: "int \<Rightarrow> int \<times> int \<times> int" where
  "civil_from_days z =
     (let z' = z + 719468;
          era = z' div 146097;
          doe = z' mod 146097;
          yoe = (doe - doe div 1460 + doe div 36524 - doe div 146096) div 365;
          doy = doe - (365 * yoe + yoe div 4 - yoe div 100);
          mp = (5 * doy + 2) div 153;
          d = doy - (153 * mp + 2) div 5 + 1;
          m = (if mp < 10 then mp + 3 else mp - 9);
          y = yoe + era * 400 + (if m \<le> 2 then 1 else 0)
      in (y, m, d))"

definition gmtime :: "int \<Rightarrow> datetime" where
  "gmtime t =
     (let (y, m, d) = civil_from_days (t div 86400);
          s = t mod 86400
      in \<lparr>year = y, month = m, day = d,
          hour = s div 3600, minute = s mod 3600 div 60, second = s mod 60\<rparr>)"

definition digit :: "int \<Rightarrow> char" where
  "digit n = ''0123456789'' ! nat n"

definition two_digits :: "int \<Rightarrow> string" where
  "two_digits n = [digit (n div 10 mod 10), digit (n mod 10)]"

definition four_digits :: "int \<Rightarrow> string" where
  "four_digits n = two_digits (n div 100) @ two_digits n"

text \<open>
  \<open>isoformat()\<close> of a datetime in UTC with no microseconds:
  \<open>YYYY-MM-DDTHH:MM:SS+00:00\<close>.
\<close>

definition isoformat :: "datetime \<Rightarrow> string" where
  "isoformat dt =
     four_digits (year dt) @ ''-'' @ two_digits (month dt) @ ''-'' @ two_digits (day dt) @
     ''T'' @ two_digits (hour dt) @ '':'' @ two_digits (minute dt) @ '':'' @
     two_digits (second dt) @ ''+00:00''"

definition iso8601_utc :: "int \<Rightarrow> string" where
  "iso8601_utc t = isoformat (gmtime t)"

text \<open>
  The first and the last second a \<open>datetime\<close> can hold: 0001-01-01T00:00:00 and
  9999-12-31T23:59:59, in epoch seconds.
\<close>

definition min_timestamp :: int where
  "min_timestamp = - 62135596800"

definition max_timestamp :: int where
  "max_timestamp = 253402300799"

text \<open>
  \<open>datetime.fromtimestamp(x, tz=timezone.utc).isoformat()\<close> on a Python value. An
  integer (a boolean is an integer in Python) is converted; a year outside 1 to 9999
  raises (\<open>ValueError\<close> or \<open>OverflowError\<close>, both \<open>ValueError\<close> here); any other
  value raises \<open>TypeError\<close>.
\<close>

fun fromtimestamp_isoformat :: "pyval \<Rightarrow> exn + string" where
  "fromtimestamp_isoformat (PInt t) =
     (if min_timestamp \<le> t \<and> t \<le> max_timestamp then Inr (iso8601_utc t) else Inl ValueError)"
| "fromtimestamp_isoformat (PBool b) = Inr (iso8601_utc (if b then 1 else 0))"
| "fromtimestamp_isoformat PNone = Inl TypeError"
| "fromtimestamp_isoformat (PStr s) = Inl TypeError"
| "fromtimestamp_isoformat (PList xs) = Inl TypeError"
| "fromtimestamp_isoformat (PDict d) = Inl TypeError"

section \<open>The ingestion stage (components/hn_fetcher.py)\<close>

text \<open>
  What lies outside the program: the answers of the network and of the extraction
  library.
  \<^item> \<open>newstories\<close>: the outcome of lines 170 to 172, the request for
    \<open>newstories.json\<close>, its status check and the decoding of its JSON body, a list of
    story IDs;
  \<^item> \<open>item\<close>: the outcome of lines 101 to 103 for a story ID; the JSON body is an object
    or \<open>null\<close> (\<open>None\<close>);
  \<^item> \<open>page\<close>: the outcome of lines 50 to 52 for a URL, the text of the response;
  \<^item> \<open>trafilatura_extract\<close>: \<open>trafilatura.extract(html, include_comments=False,
    output_format="txt")\<close>, which returns a text or \<open>None\<close>, or raises.
\<close>

record hn_world =
  newstories :: "exn + int list"
  item :: "int \<Rightarrow> exn + pydict option"
  page :: "pyval \<Rightarrow> exn + string"
  trafilatura_extract :: "string \<Rightarrow> exn + string option"

text \<open>
  \<open>_fetch_url\<close>: the three handlers catch every exception and return \<open>None\<close>. The debug
  lines printed when \<open>verbose\<close> is set are not modelled, here and below.
\<close>

definition fetch_url :: "hn_world \<Rightarrow> pyval \<Rightarrow> string option" where
  "fetch_url w url = (case page w url of Inl e \<Rightarrow> None | Inr text \<Rightarrow> Some text)"

text \<open>\<open>_extract_article_text\<close>.\<close>

definition extract_article_text :: "hn_world \<Rightarrow> pyval \<Rightarrow> string option" where
  "extract_article_text w url =
     (case fetch_url w url of
        None \<Rightarrow> None
      | Some html_content \<Rightarrow>
          if html_content = [] then None
          else (case trafilatura_extract w html_content of
                  Inl e \<Rightarrow> None
                | Inr None \<Rightarrow> None
                | Inr (Some extracted_text) \<Rightarrow>
                    if extracted_text = [] then None else Some extracted_text))"

text \<open>\<open>_fetch_story_details\<close>.\<close>

definition fetch_story_details :: "hn_world \<Rightarrow> int \<Rightarrow> pydict option" where
  "fetch_story_details w story_id =
     (case item w story_id of Inl e \<Rightarrow> None | Inr details \<Rightarrow> details)"

text \<open>
  \<open>_process_story\<close>. \<open>Inr None\<close> is the return of \<open>None\<close> (the story is skipped),
  \<open>Inr (Some doc)\<close> the return of a document, \<open>Inl e\<close> an exception that leaves the
  coroutine: the conversion of the timestamp on line 138 is under no \<open>try\<close>.
\<close>

definition process_story :: "hn_world \<Rightarrow> int \<Rightarrow> exn + document option" where
  "process_story w story_id =
     (case fetch_story_details w story_id of
        None \<Rightarrow> Inr None
      | Some details \<Rightarrow>
          if details = [] \<or> dict_get details ''type'' PNone \<noteq> PStr ''story'' then Inr None
          else (case map_of details ''url'' of
                  None \<Rightarrow> Inr None
                | Some url \<Rightarrow>
                    if \<not> truthy url then Inr None
                    else (case (case map_of details ''time'' of
                                  None \<Rightarrow> Inr PNone
                                | Some t \<Rightarrow> map_sum id PStr (fromtimestamp_isoformat t)) of
                            Inl e \<Rightarrow> Inl e
                          | Inr time_iso \<Rightarrow>
                              (case extract_article_text w url of
                                 None \<Rightarrow> Inr None
                               | Some article_text \<Rightarrow>
                                   Inr (Some \<lparr>content = article_text,
                                     meta =
                                       [(''title'', dict_get details ''title'' PNone),
                                        (''url'', url),
                                        (''score'', dict_get details ''score'' (PInt 0)),
                                        (''descendants'', dict_get details ''descendants'' (PInt 0)),
                                        (''by'', dict_get details ''by'' PNone),
                                        (''time_iso'', time_iso),
                                        (''id'', PInt story_id)]\<rparr>)))))"

text \<open>The slice \<open>xs[:k]\<close>; a negative \<open>k\<close> counts from the end.\<close>

definition py_slice_to :: "'a list \<Rightarrow> int \<Rightarrow> 'a list" where
  "py_slice_to xs k =
     (if 0 \<le> k then take (nat k) xs else take (nat (int (length xs) + k)) xs)"

text \<open>
  \<open>asyncio.gather(*tasks)\<close>. The tasks share nothing and every answer of the world
  depends on the request alone, so a task is given by its outcome. What the scheduler
  decides is the order in which the tasks complete: task \<open>i\<close> completes at time
  \<open>finish i\<close>, ties in the order of creation. On completion a task stores its outcome
  in its own future, the slot \<open>i\<close>. \<open>gather\<close> raises the exception of the first task
  that completes with one; otherwise it returns the results of the futures in the
  order of the tasks.
\<close>

definition completion_order :: "(nat \<Rightarrow> nat) \<Rightarrow> nat \<Rightarrow> nat list" where
  "completion_order finish n = sort_key finish [0..<n]"

definition run_tasks :: "(nat \<Rightarrow> nat) \<Rightarrow> (exn + 'a) list \<Rightarrow> (exn + 'a) option list" where
  "run_tasks finish outcomes =
     foldl (\<lambda>slots i. slots[i := Some (outcomes ! i)])
       (replicate (length outcomes) None)
       (completion_order finish (length outcomes))"

definition first_exception :: "(nat \<Rightarrow> nat) \<Rightarrow> (exn + 'a) list \<Rightarrow> exn option" where
  "first_exception finish outcomes =
     (case List.find isl
             (map (\<lambda>i. outcomes ! i) (completion_order finish (length outcomes))) of
        Some (Inl e) \<Rightarrow> Some e
      | _ \<Rightarrow> None)"

definition gather :: "(nat \<Rightarrow> nat) \<Rightarrow> (exn + 'a) list \<Rightarrow> exn + 'a list" where
  "gather finish outcomes =
     (case first_exception finish outcomes of
        Some e \<Rightarrow> Inl e
      | None \<Rightarrow>
          Inr (List.map_filter (\<lambda>slot. case slot of Some (Inr v) \<Rightarrow> Some v | _ \<Rightarrow> None)
                 (run_tasks finish outcomes)))"

text \<open>
  \<open>_run_async\<close>. The first component is the list of story IDs for which a task was
  created on line 188: all the work for one ID is done by its task. The second is the
  list stored under the key \<open>documents\<close>, or the exception raised to the caller.
\<close>

definition run_async :: "hn_world \<Rightarrow> (nat \<Rightarrow> nat) \<Rightarrow> int \<Rightarrow> int list \<times> (exn + document list)" where
  "run_async w finish last_k =
     (case newstories w of
        Inl e \<Rightarrow> ([], Inr [])
      | Inr top_story_ids \<Rightarrow>
          (let story_ids_to_process = py_slice_to top_story_ids last_k;
               tasks = map (process_story w) story_ids_to_process
           in (story_ids_to_process,
               case gather finish tasks of
                 Inl e \<Rightarrow> Inl e
               | Inr processed_documents \<Rightarrow>
                   Inr (map the (filter (\<lambda>doc. doc \<noteq> None) processed_documents)))))"


text \<open>
  The document derived from a story ID: the document its task returns, if it returns one.
\<close>

definition document_of :: "hn_world \<Rightarrow> int \<Rightarrow> document option" where
  "document_of w story_id =
     (case process_story w story_id of Inl e \<Rightarrow> None | Inr doc \<Rightarrow> doc)"

section \<open>Example inputs\<close>

text \<open>
  A feed of four stories. Story 101 links to a page whose text is extracted; story 102
  has no \<open>url\<close>; the page of story 103 times out; story 104 has no \<open>time\<close>,
  \<open>score\<close> or \<open>by\<close> field and links to a page whose text is extracted.
\<close>

definition story_101 :: pydict where
  "story_101 =
     [(''id'', PInt 101), (''type'', PStr ''story''), (''title'', PStr ''A''),
      (''url'', PStr ''https://a.example''), (''score'', PInt 7), (''by'', PStr ''ann''),
      (''time'', PInt 1700000000)]"

definition story_102 :: pydict where
  "story_102 = [(''id'', PInt 102), (''type'', PStr ''story''), (''title'', PStr ''Ask HN'')]"

definition story_103 :: pydict where
  "story_103 =
     [(''id'', PInt 103), (''type'', PStr ''story''), (''title'', PStr ''B''),
      (''url'', PStr ''https://b.example'')]"

definition story_104 :: pydict where
  "story_104 =
     [(''id'', PInt 104), (''type'', PStr ''story''), (''title'', PStr ''C''),
      (''url'', PStr ''https://c.example''), (''descendants'', PInt 3)]"

definition feed_world :: hn_world where
  "feed_world = \<lparr>
     newstories = Inr [101, 102, 103, 104],
     item = (\<lambda>i. if i = 101 then Inr (Some story_101)
                 else if i = 102 then Inr (Some story_102)
                 else if i = 103 then Inr (Some story_103)
                 else if i = 104 then Inr (Some story_104)
                 else Inr None),
     page = (\<lambda>u. if u = PStr ''https://a.example'' then Inr ''<p>Text A</p>''
                 else if u = PStr ''https://c.example'' then Inr ''<p>Text C</p>''
                 else Inl TimeoutError),
     trafilatura_extract =
       (\<lambda>h. if h = ''<p>Text A</p>'' then Inr (Some ''Text A'')
            else if h = ''<p>Text C</p>'' then Inr (Some ''Text C'')
            else Inr None)\<rparr>"

definition doc_101 :: document where
  "doc_101 = \<lparr>content = ''Text A'',
     meta = [(''title'', PStr ''A''), (''url'', PStr ''https://a.example''),
             (''score'', PInt 7), (''descendants'', PInt 0), (''by'', PStr ''ann''),
             (''time_iso'', PStr ''2023-11-14T22:13:20+00:00''), (''id'', PInt 101)]\<rparr>"

definition doc_104 :: document where
  "doc_104 = \<lparr>content = ''Text C'',
     meta = [(''title'', PStr ''C''), (''url'', PStr ''https://c.example''),
             (''score'', PInt 0), (''descendants'', PInt 3), (''by'', PNone),
             (''time_iso'', PNone), (''id'', PInt 104)]\<rparr>"


text \<open>Two orders of completion: first task first, and last task first.\<close>

definition in_order :: "nat \<Rightarrow> nat" where
  "in_order i = i"

definition last_first :: "nat \<Rightarrow> nat" where
  "last_first i = 10 - i"

text \<open>
  A generator that raises for the document at position 0, returns no reply for the
  document at position 1 and returns replies for every other document; and one that
  differs from it at position 0 only, where it returns a reply.
\<close>

definition example_config :: config where
  "example_config =
     \<lparr>api_key = ''k'', model_name = ''gpt-5.2'', temperature = 1 / 2, verbose = False\<rparr>"

definition flaky_generator :: gen_world where
  "flaky_generator = \<lparr>
     render = (\<lambda>i template doc. Inr (template @ content doc)),
     llm_run = (\<lambda>i cfg prompt.
        if i = 0 then Inl ClientError
        else if i = 1 then Inr [(''replies'', PList []), (''meta'', PList [])]
        else Inr [(''replies'', PList [PStr ''S2'', PStr ''S2b'']), (''meta'', PList [])])\<rparr>"

definition steady_generator :: gen_world where
  "steady_generator = \<lparr>
     render = (\<lambda>i template doc. Inr (template @ content doc)),
     llm_run = (\<lambda>i cfg prompt.
        if i = 0 then Inr [(''replies'', PList [PStr ''S0'']), (''meta'', PList [])]
        else if i = 1 then Inr [(''replies'', PList []), (''meta'', PList [])]
        else Inr [(''replies'', PList [PStr ''S2'', PStr ''S2b'']), (''meta'', PList [])])\<rparr>"

definition three_documents :: "document list" where
  "three_documents = [doc_101, doc_104, doc_101]"

section \<open>Lemmas about the summarization loop\<close>

lemma for_loop_append:
  "for_loop cfg w template i documents results =
     results @ map (\<lambda>(j, doc). loop_body cfg w template (i + j) doc)
                 (zip [0..<length documents] documents)"
proof (induction documents arbitrary: i results)
  case Nil
  show ?case by simp
next
  case (Cons doc documents)
  have shift: "zip [0..<Suc (length documents)] (doc # documents) =
      (0, doc) # map (\<lambda>(j, d). (Suc j, d)) (zip [0..<length documents] documents)"
    by (simp add: upt_conv_Cons zip_map1 map_Suc_upt [symmetric] del: upt_Suc)
  show ?case
    by (simp add: Cons.IH shift case_prod_unfold comp_def del: upt_Suc)
qed

lemma for_loop_length:
  "length (for_loop cfg w template i documents results) = length results + length documents"
  by (simp add: for_loop_append)

lemma for_loop_nth:
  assumes "j < length documents"
  shows "for_loop cfg w template 0 documents [] ! j = loop_body cfg w template j (documents ! j)"
  using assms by (simp add: for_loop_append)

lemma loop_body_keys: "map fst (loop_body cfg w template i doc) = [''document'', ''summary'']"
  by (simp add: loop_body_def try_block_def split: sum.splits)

lemma loop_body_document: "map_of (loop_body cfg w template i doc) ''document'' = Some (RDoc doc)"
  by (simp add: loop_body_def try_block_def split: sum.splits)

lemma loop_body_raised:
  "generation cfg w template i doc = Inl e \<Longrightarrow>
   loop_body cfg w template i doc =
     [(''document'', RDoc doc), (''summary'', RVal (PStr ''Error generating summary''))]"
  by (auto simp: loop_body_def try_block_def generation_def split: sum.splits)

lemma loop_body_first_reply:
  "generation cfg w template i doc = Inr response \<Longrightarrow>
   map_of response ''replies'' = Some (PList (r # rest)) \<Longrightarrow>
   loop_body cfg w template i doc = [(''document'', RDoc doc), (''summary'', RVal r)]"
  by (auto simp: loop_body_def try_block_def generation_def summary_of_def dict_get_def
      split: sum.splits)

lemma loop_body_no_reply:
  "generation cfg w template i doc = Inr response \<Longrightarrow>
   \<not> truthy (dict_get response ''replies'' PNone) \<Longrightarrow>
   loop_body cfg w template i doc =
     [(''document'', RDoc doc), (''summary'', RVal (PStr ''Unable to generate summary''))]"
  by (auto simp: loop_body_def try_block_def generation_def summary_of_def
      split: sum.splits)

lemma loop_body_cong:
  "render w i = render w' i \<Longrightarrow> llm_run w i = llm_run w' i \<Longrightarrow>
   loop_body cfg w template i doc = loop_body cfg w' template i doc"
  unfolding loop_body_def try_block_def by (erule ssubst, erule ssubst) (rule refl)

lemma flaky_run:
  "DocumentLoopProcessor_run example_config flaky_generator (Inr ''T'') three_documents =
     Inr [[(''document'', RDoc doc_101),
           (''summary'', RVal (PStr ''Error generating summary''))],
          [(''document'', RDoc doc_104),
           (''summary'', RVal (PStr ''Unable to generate summary''))],
          [(''document'', RDoc doc_101), (''summary'', RVal (PStr ''S2''))]]"
  by (simp add: DocumentLoopProcessor_run_def three_documents_def loop_body_def try_block_def
      flaky_generator_def summary_of_def dict_get_def)

lemma steady_run:
  "DocumentLoopProcessor_run example_config steady_generator (Inr ''T'') three_documents =
     Inr [[(''document'', RDoc doc_101), (''summary'', RVal (PStr ''S0''))],
          [(''document'', RDoc doc_104),
           (''summary'', RVal (PStr ''Unable to generate summary''))],
          [(''document'', RDoc doc_101), (''summary'', RVal (PStr ''S2''))]]"
  by (simp add: DocumentLoopProcessor_run_def three_documents_def loop_body_def try_block_def
      steady_generator_def summary_of_def dict_get_def)

lemma flaky_generation:
  "generation example_config flaky_generator ''T'' 0 (three_documents ! 0) = Inl ClientError"
  "generation example_config flaky_generator ''T'' 1 (three_documents ! 1) =
     Inr [(''replies'', PList []), (''meta'', PList [])]"
  "generation example_config flaky_generator ''T'' 2 (three_documents ! 2) =
     Inr [(''replies'', PList [PStr ''S2'', PStr ''S2b'']), (''meta'', PList [])]"
  by (simp_all add: generation_def flaky_generator_def three_documents_def)

section \<open>Lemmas about timestamps\<close>

lemma civil_from_days_19675: "civil_from_days 19675 = (2023, 11, 14)"
  unfolding civil_from_days_def Let_def by simp

lemma gmtime_1700000000:
  "gmtime 1700000000 =
     \<lparr>year = 2023, month = 11, day = 14, hour = 22, minute = 13, second = 20\<rparr>"
proof -
  have d: "(1700000000::int) div 86400 = 19675" by simp
  have s: "(1700000000::int) mod 86400 = 80000" by simp
  show ?thesis unfolding gmtime_def d s civil_from_days_19675 Let_def by simp
qed

lemma iso8601_utc_1700000000: "iso8601_utc 1700000000 = ''2023-11-14T22:13:20+00:00''"
  unfolding iso8601_utc_def gmtime_1700000000
  by (simp add: isoformat_def two_digits_def four_digits_def digit_def)

lemma civil_from_days_0: "civil_from_days 0 = (1970, 1, 1)"
  unfolding civil_from_days_def Let_def by simp

lemma iso8601_utc_epoch: "iso8601_utc 0 = ''1970-01-01T00:00:00+00:00''"
  unfolding iso8601_utc_def gmtime_def
  by (simp add: civil_from_days_0 isoformat_def two_digits_def four_digits_def digit_def)

lemma civil_from_days_leap: "civil_from_days 19782 = (2024, 2, 29)"
  unfolding civil_from_days_def Let_def by simp

lemma iso8601_utc_leap_day: "iso8601_utc 1709210096 = ''2024-02-29T12:34:56+00:00''"
proof -
  have d: "(1709210096::int) div 86400 = 19782" by simp
  have s: "(1709210096::int) mod 86400 = 45296" by simp
  show ?thesis
    unfolding iso8601_utc_def gmtime_def d s civil_from_days_leap Let_def
    by (simp add: isoformat_def two_digits_def four_digits_def digit_def)
qed

lemma civil_from_days_before_epoch: "civil_from_days (- 1) = (1969, 12, 31)"
  unfolding civil_from_days_def Let_def by simp

lemma iso8601_utc_before_epoch: "iso8601_utc (- 1) = ''1969-12-31T23:59:59+00:00''"
proof -
  have d: "(- 1::int) div 86400 = - 1" by simp
  have s: "(- 1::int) mod 86400 = 86399" by simp
  show ?thesis
    unfolding iso8601_utc_def gmtime_def d s civil_from_days_before_epoch Let_def
    by (simp add: isoformat_def two_digits_def four_digits_def digit_def)
qed

text \<open>The time of day is read off the seconds since midnight.\<close>

lemma gmtime_time_of_day:
  "0 \<le> hour (gmtime t) \<and> hour (gmtime t) < 24 \<and>
   0 \<le> minute (gmtime t) \<and> minute (gmtime t) < 60 \<and>
   0 \<le> second (gmtime t) \<and> second (gmtime t) < 60 \<and>
   t = 86400 * (t div 86400) + 3600 * hour (gmtime t) + 60 * minute (gmtime t) +
       second (gmtime t)"
proof -
  obtain y m d where c: "civil_from_days (t div 86400) = (y, m, d)"
    by (cases "civil_from_days (t div 86400)") auto
  define s where "s = t mod 86400"
  define r where "r = s mod 3600"
  have f: "hour (gmtime t) = s div 3600" "minute (gmtime t) = r div 60"
    "second (gmtime t) = s mod 60"
    by (simp_all add: gmtime_def c Let_def s_def r_def)
  have s: "0 \<le> s" "s < 86400" by (simp_all add: s_def)
  have r: "0 \<le> r" "r < 3600" by (simp_all add: r_def)
  have t: "t = 86400 * (t div 86400) + s" by (simp add: s_def)
  have sr: "s = 3600 * (s div 3600) + r" by (simp add: r_def)
  have "(60::int) dvd 3600" by simp
  then have "s mod 60 = r mod 60" unfolding r_def by (simp add: mod_mod_cancel)
  then have rs: "r = 60 * (r div 60) + s mod 60" by simp
  have h: "0 \<le> s div 3600" "s div 3600 < 24"
    using s by (simp_all add: div_less_iff_less_mult pos_imp_zdiv_nonneg_iff)
  have mi: "0 \<le> r div 60" "r div 60 < 60"
    using r by (simp_all add: div_less_iff_less_mult pos_imp_zdiv_nonneg_iff)
  have se: "0 \<le> s mod 60" "s mod 60 < 60" by simp_all
  from t sr rs have "t = 86400 * (t div 86400) + 3600 * (s div 3600) + 60 * (r div 60) + s mod 60"
    by linarith
  with h mi se show ?thesis unfolding f by blast
qed

section \<open>Lemmas about gather\<close>

lemma foldl_slots:
  "set xs \<subseteq> {..<length s} \<Longrightarrow>
   foldl (\<lambda>slots i. slots[i := Some (f i)]) s xs =
     map (\<lambda>i. if i \<in> set xs then Some (f i) else s ! i) [0..<length s]"
proof (induction xs arbitrary: s)
  case Nil
  show ?case by (simp add: map_nth)
next
  case (Cons x xs)
  have "set xs \<subseteq> {..<length (s[x := Some (f x)])}"
    using Cons.prems by simp
  from Cons.IH [OF this] show ?case
    by (auto simp: nth_list_update intro!: nth_equalityI)
qed

lemma set_completion_order: "set (completion_order finish n) = {..<n}"
  by (auto simp: completion_order_def)

lemma run_tasks_eq: "run_tasks finish outcomes = map Some outcomes"
proof -
  have "run_tasks finish outcomes =
      map (\<lambda>i. Some (outcomes ! i)) [0..<length outcomes]"
    unfolding run_tasks_def
    by (subst foldl_slots) (simp_all add: set_completion_order)
  also have "\<dots> = map Some (map (\<lambda>i. outcomes ! i) [0..<length outcomes])"
    by simp
  finally show ?thesis by (simp only: map_nth)
qed

lemma set_in_completion_order:
  "set (map (\<lambda>i. outcomes ! i) (completion_order finish (length outcomes))) = set outcomes"
  by (auto simp: set_completion_order in_set_conv_nth)

lemma find_isl_Some: "List.find isl xs = Some x \<Longrightarrow> \<exists>e. x = Inl e \<and> Inl e \<in> set xs"
  by (induction xs) (auto simp: isl_def split: if_splits)

lemma first_exception_None_iff:
  "first_exception finish outcomes = None \<longleftrightarrow> (\<forall>x \<in> set outcomes. \<not> isl x)"
proof -
  let ?L = "map (\<lambda>i. outcomes ! i) (completion_order finish (length outcomes))"
  have "first_exception finish outcomes = None \<longleftrightarrow> List.find isl ?L = None"
    unfolding first_exception_def
    by (auto split: option.splits sum.splits dest: find_isl_Some)
  also have "\<dots> \<longleftrightarrow> (\<forall>x \<in> set ?L. \<not> isl x)"
    by (simp only: find_None_iff) blast
  finally show ?thesis
    by (simp only: set_in_completion_order)
qed

lemma first_exception_Some:
  assumes "first_exception finish outcomes = Some e"
  shows "Inl e \<in> set outcomes"
proof -
  let ?L = "map (\<lambda>i. outcomes ! i) (completion_order finish (length outcomes))"
  from assms have "List.find isl ?L = Some (Inl e)"
    unfolding first_exception_def by (auto split: option.splits sum.splits)
  then have "Inl e \<in> set ?L"
    by (auto dest: find_isl_Some)
  then show ?thesis
    by (simp only: set_in_completion_order)
qed

lemma map_filter_Some_Inr:
  "List.map_filter (\<lambda>slot. case slot of Some (Inr v) \<Rightarrow> Some v | _ \<Rightarrow> None)
     (map (\<lambda>v. Some (Inr v)) vs) = vs"
  by (induction vs) (simp_all add: map_filter_simps)

lemma gather_Inr_iff: "gather finish outcomes = Inr vs \<longleftrightarrow> outcomes = map Inr vs"
proof
  assume g: "gather finish outcomes = Inr vs"
  then have none: "first_exception finish outcomes = None"
    and vs: "vs = List.map_filter (\<lambda>slot. case slot of Some (Inr v) \<Rightarrow> Some v | _ \<Rightarrow> None)
                 (map Some outcomes)"
    by (auto simp: gather_def run_tasks_eq split: option.splits)
  from none have "\<forall>x \<in> set outcomes. \<not> isl x"
    by (simp add: first_exception_None_iff)
  then have "outcomes = map Inr (map projr outcomes)"
    by (induction outcomes) (auto simp: isl_def)
  then obtain ws where ws: "outcomes = map Inr ws" ..
  with vs have "vs = ws" by (simp add: map_filter_Some_Inr comp_def)
  with ws show "outcomes = map Inr vs" by simp
next
  assume o: "outcomes = map Inr vs"
  then have "first_exception finish outcomes = None"
    by (auto simp: first_exception_None_iff)
  then show "gather finish outcomes = Inr vs"
    by (simp add: gather_def run_tasks_eq o map_filter_Some_Inr comp_def)
qed

lemma gather_Inl: "gather finish outcomes = Inl e \<Longrightarrow> Inl e \<in> set outcomes"
  by (auto simp: gather_def split: option.splits dest: first_exception_Some)

lemma gather_isl_indep: "isl (gather finish outcomes) = isl (gather finish' outcomes)"
proof -
  have "isl (gather f outcomes) \<longleftrightarrow> (\<exists>x \<in> set outcomes. isl x)" for f
    using first_exception_None_iff [of f outcomes]
    by (auto simp: gather_def split: option.splits)
  then show ?thesis by simp
qed

section \<open>Lemmas about the ingestion stage\<close>

lemma dict_get_type_story:
  "dict_get details ''type'' PNone = PStr ''story'' \<longleftrightarrow>
   map_of details ''type'' = Some (PStr ''story'')"
  by (auto simp: dict_get_def split: option.splits)

lemma process_story_SomeD:
  assumes "process_story w sid = Inr (Some doc)"
  shows "\<exists>details url time_iso article.
     fetch_story_details w sid = Some details \<and>
     map_of details ''type'' = Some (PStr ''story'') \<and>
     map_of details ''url'' = Some url \<and> truthy url \<and>
     (case map_of details ''time'' of
        None \<Rightarrow> Inr PNone
      | Some t \<Rightarrow> map_sum id PStr (fromtimestamp_isoformat t)) = Inr time_iso \<and>
     extract_article_text w url = Some article \<and>
     doc = \<lparr>content = article,
            meta = [(''title'', dict_get details ''title'' PNone),
                    (''url'', url),
                    (''score'', dict_get details ''score'' (PInt 0)),
                    (''descendants'', dict_get details ''descendants'' (PInt 0)),
                    (''by'', dict_get details ''by'' PNone),
                    (''time_iso'', time_iso),
                    (''id'', PInt sid)]\<rparr>"
  using assms unfolding process_story_def dict_get_type_story
  by (auto split: option.splits if_splits sum.splits)


lemma extract_article_text_SomeD:
  assumes "extract_article_text w url = Some article"
  shows "article \<noteq> [] \<and> (\<exists>html. page w url = Inr html \<and> html \<noteq> [] \<and>
           trafilatura_extract w html = Inr (Some article))"
  using assms unfolding extract_article_text_def fetch_url_def
  by (auto split: option.splits sum.splits if_splits)

lemma fetch_story_details_SomeD:
  "fetch_story_details w sid = Some details \<Longrightarrow> item w sid = Inr (Some details)"
  unfolding fetch_story_details_def by (auto split: sum.splits)


lemma map_filter_append:
  "List.map_filter f (xs @ ys) = List.map_filter f xs @ List.map_filter f ys"
  by (simp add: map_filter_def)

lemma map_the_filter:
  "map the (filter (\<lambda>d. d \<noteq> None) (map f xs)) = List.map_filter f xs"
  by (simp add: map_filter_def filter_map comp_def)

lemma map_the_filter_Some:
  "map the (filter (\<lambda>d. \<exists>y. d = Some y) (map f xs)) = List.map_filter f xs"
  using map_the_filter [of f xs] by simp

lemma map_filter_order:
  assumes "i < j" and "j < length xs" and "f (xs ! i) = Some a" and "f (xs ! j) = Some b"
  shows "\<exists>i' j'. i' < j' \<and> j' < length (List.map_filter f xs) \<and>
           List.map_filter f xs ! i' = a \<and> List.map_filter f xs ! j' = b"
proof -
  from assms have i: "i < length xs" by simp
  define ys where "ys = take i xs"
  define zs where "zs = drop (Suc i) xs"
  have xs: "xs = ys @ xs ! i # zs"
    unfolding ys_def zs_def using i by (rule id_take_nth_drop)
  have jz: "j - Suc i < length zs" and zj: "zs ! (j - Suc i) = xs ! j"
    using assms(1,2) by (simp_all add: zs_def)
  define us where "us = take (j - Suc i) zs"
  define vs where "vs = drop (Suc (j - Suc i)) zs"
  have zs: "zs = us @ xs ! j # vs"
    unfolding us_def vs_def using id_take_nth_drop [OF jz] by (simp add: zj)
  have eq: "List.map_filter f xs =
      List.map_filter f ys @ a # List.map_filter f us @ b # List.map_filter f vs"
    by (subst xs, subst zs) (simp add: map_filter_append map_filter_simps assms(3,4))
  let ?i = "length (List.map_filter f ys)"
  let ?j = "?i + Suc (length (List.map_filter f us))"
  have "?i < ?j" by simp
  moreover have "?j < length (List.map_filter f xs)" by (simp add: eq)
  moreover have "List.map_filter f xs ! ?i = a" by (simp add: eq)
  moreover have "List.map_filter f xs ! ?j = b"
    by (simp add: eq nth_append)
  ultimately show ?thesis by blast
qed


lemma run_async_Inr:
  assumes "run_async w finish k = (ids, Inr docs)"
  shows "map (process_story w) ids = map Inr (map (document_of w) ids) \<and>
         docs = List.map_filter (document_of w) ids"
proof (cases "newstories w")
  case (Inl e)
  with assms show ?thesis by (simp add: run_async_def map_filter_simps)
next
  case (Inr top_story_ids)
  with assms have ids: "ids = py_slice_to top_story_ids k"
    by (auto simp: run_async_def Let_def)
  from assms Inr obtain processed where
    g: "gather finish (map (process_story w) ids) = Inr processed"
    and docs: "docs = map the (filter (\<lambda>d. d \<noteq> None) processed)"
    by (auto simp: run_async_def Let_def ids split: sum.splits)
  from g have m: "map (process_story w) ids = map Inr processed"
    by (simp only: gather_Inr_iff)
  then have "processed = map (document_of w) ids"
    by (auto simp: list_eq_iff_nth_eq document_of_def dest!: spec)
  with m docs show ?thesis by (simp add: map_the_filter_Some)
qed

lemma run_async_InrI:
  assumes "newstories w = Inr top_story_ids"
    and "map (process_story w) (py_slice_to top_story_ids k) =
         map Inr (map (document_of w) (py_slice_to top_story_ids k))"
  shows "run_async w finish k =
    (py_slice_to top_story_ids k,
     Inr (List.map_filter (document_of w) (py_slice_to top_story_ids k)))"
proof -
  have "gather finish (map (process_story w) (py_slice_to top_story_ids k)) =
      Inr (map (document_of w) (py_slice_to top_story_ids k))"
    using assms(2) by (simp only: gather_Inr_iff)
  then show ?thesis
    using assms(1) by (simp add: run_async_def Let_def map_the_filter_Some)
qed

lemma run_async_raises_indep:
  "isl (snd (run_async w finish k)) = isl (snd (run_async w finish' k))"
proof (cases "newstories w")
  case (Inl e)
  then show ?thesis by (simp add: run_async_def)
next
  case (Inr top_story_ids)
  from gather_isl_indep [of finish "map (process_story w) (py_slice_to top_story_ids k)" finish']
  show ?thesis
    by (auto simp: run_async_def Let_def Inr split: sum.splits)
qed

text \<open>
  A \<open>time\<close> that cannot be converted raises out of the task, and then out of the
  whole run, whatever the order of completion.
\<close>

lemma unconvertible_time_raises:
  assumes "item w sid = Inr (Some details)"
    and "map_of details ''type'' = Some (PStr ''story'')"
    and "map_of details ''url'' = Some url" and "truthy url"
    and "map_of details ''time'' = Some t"
    and "fromtimestamp_isoformat t = Inl e"
  shows "process_story w sid = Inl e"
proof -
  from assms(2) have "details \<noteq> []" by auto
  with assms show ?thesis
    unfolding process_story_def dict_get_type_story fetch_story_details_def by simp
qed

lemma run_async_raises:
  assumes "newstories w = Inr top_story_ids"
    and "sid \<in> set (py_slice_to top_story_ids k)"
    and "process_story w sid = Inl e"
  shows "\<exists>e'. snd (run_async w finish k) = Inl e'"
proof -
  let ?tasks = "map (process_story w) (py_slice_to top_story_ids k)"
  have "Inl e \<in> set ?tasks"
    using assms(2,3) by (force simp: image_iff)
  then have "\<not> (\<exists>vs. gather finish ?tasks = Inr vs)"
    unfolding gather_Inr_iff by (metis (no_types, lifting) Inl_Inr_False imageE list.set_map)
  then obtain e' where "gather finish ?tasks = Inl e'"
    by (cases "gather finish ?tasks") auto
  then show ?thesis
    using assms(1) by (simp add: run_async_def Let_def)
qed

lemma process_story_101: "process_story feed_world 101 = Inr (Some doc_101)"
  by (simp add: process_story_def fetch_story_details_def feed_world_def story_101_def
      doc_101_def dict_get_def extract_article_text_def fetch_url_def iso8601_utc_1700000000
      min_timestamp_def max_timestamp_def)

lemma process_story_102: "process_story feed_world 102 = Inr None"
  by (simp add: process_story_def fetch_story_details_def feed_world_def story_102_def
      dict_get_def)

lemma process_story_103: "process_story feed_world 103 = Inr None"
  by (simp add: process_story_def fetch_story_details_def feed_world_def story_103_def
      dict_get_def extract_article_text_def fetch_url_def)

lemma process_story_104: "process_story feed_world 104 = Inr (Some doc_104)"
  by (simp add: process_story_def fetch_story_details_def feed_world_def story_104_def
      doc_104_def dict_get_def extract_article_text_def fetch_url_def)

lemma feed_run_in_order:
  "run_async feed_world in_order 4 = ([101, 102, 103, 104], Inr [doc_101, doc_104])"
proof -
  have n: "newstories feed_world = Inr [101, 102, 103, 104]"
    by (simp add: feed_world_def)
  have s: "py_slice_to [101, 102, 103, 104 :: int] 4 = [101, 102, 103, 104]"
    by (simp add: py_slice_to_def)
  show ?thesis
    using run_async_InrI [OF n, of 4 in_order]
    by (simp add: s document_of_def process_story_101 process_story_102 process_story_103
        process_story_104 map_filter_simps)
qed

section \<open>The claims\<close>

subsection \<open>Summarization stage\<close>

text \<open>
  Claim C1, as the code has it. Every element of the list the summarization stage returns
  is a dictionary with exactly the two keys \<open>document\<close> and \<open>summary\<close>, in which
  \<open>document\<close> is the input document of the same position. There is no \<open>failed\<close>
  key: a failed generation shows in the summary text only, which is
  \<open>Error generating summary\<close> when the generation raised and
  \<open>Unable to generate summary\<close> when it returned nothing under \<open>replies\<close>.
\<close>

theorem result_entry_fields:
  "\<exists>rs. DocumentLoopProcessor_run cfg w (Inr template) documents = Inr rs \<and>
     length rs = length documents \<and>
     (\<forall>i<length documents.
        map fst (rs ! i) = [''document'', ''summary''] \<and>
        map_of (rs ! i) ''document'' = Some (RDoc (documents ! i)) \<and>
        (case generation cfg w template i (documents ! i) of
           Inl e \<Rightarrow> map_of (rs ! i) ''summary'' = Some (RVal (PStr ''Error generating summary''))
         | Inr response \<Rightarrow>
             \<not> truthy (dict_get response ''replies'' PNone) \<longrightarrow>
             map_of (rs ! i) ''summary'' = Some (RVal (PStr ''Unable to generate summary''))))"
  by (auto simp: DocumentLoopProcessor_run_def for_loop_length for_loop_nth loop_body_keys
      loop_body_document loop_body_raised loop_body_no_reply split: sum.splits)

theorem result_entry_fields_witness:
  "\<exists>rs. DocumentLoopProcessor_run example_config flaky_generator (Inr ''T'') three_documents
          = Inr rs \<and>
     length rs = 3 \<and>
     map fst (rs ! 0) = [''document'', ''summary''] \<and>
     map_of (rs ! 0) ''document'' = Some (RDoc doc_101) \<and>
     map_of (rs ! 0) ''summary'' = Some (RVal (PStr ''Error generating summary'')) \<and>
     map fst (rs ! 1) = [''document'', ''summary''] \<and>
     map_of (rs ! 1) ''document'' = Some (RDoc doc_104) \<and>
     map_of (rs ! 1) ''summary'' = Some (RVal (PStr ''Unable to generate summary''))"
proof -
  obtain rs where run: "DocumentLoopProcessor_run example_config flaky_generator (Inr ''T'')
      three_documents = Inr rs"
    and len: "length rs = length three_documents"
    and all: "\<forall>i<length three_documents.
        map fst (rs ! i) = [''document'', ''summary''] \<and>
        map_of (rs ! i) ''document'' = Some (RDoc (three_documents ! i)) \<and>
        (case generation example_config flaky_generator ''T'' i (three_documents ! i) of
           Inl e \<Rightarrow> map_of (rs ! i) ''summary'' = Some (RVal (PStr ''Error generating summary''))
         | Inr response \<Rightarrow>
             \<not> truthy (dict_get response ''replies'' PNone) \<longrightarrow>
             map_of (rs ! i) ''summary'' = Some (RVal (PStr ''Unable to generate summary'')))"
    using result_entry_fields [of example_config flaky_generator "''T''" three_documents]
    by blast
  have l3: "length three_documents = 3" by (simp add: three_documents_def)
  have lt: "0 < length three_documents" "1 < length three_documents" by (simp_all add: l3)
  from all [rule_format, OF lt(1)] have a0: "map fst (rs ! 0) = [''document'', ''summary''] \<and>
        map_of (rs ! 0) ''document'' = Some (RDoc (three_documents ! 0)) \<and>
        (case generation example_config flaky_generator ''T'' 0 (three_documents ! 0) of
           Inl e \<Rightarrow> map_of (rs ! 0) ''summary'' = Some (RVal (PStr ''Error generating summary''))
         | Inr response \<Rightarrow>
             \<not> truthy (dict_get response ''replies'' PNone) \<longrightarrow>
             map_of (rs ! 0) ''summary'' = Some (RVal (PStr ''Unable to generate summary'')))"
    by simp
  from all [rule_format, OF lt(2)] have a1: "map fst (rs ! 1) = [''document'', ''summary''] \<and>
        map_of (rs ! 1) ''document'' = Some (RDoc (three_documents ! 1)) \<and>
        (case generation example_config flaky_generator ''T'' 1 (three_documents ! 1) of
           Inl e \<Rightarrow> map_of (rs ! 1) ''summary'' = Some (RVal (PStr ''Error generating summary''))
         | Inr response \<Rightarrow>
             \<not> truthy (dict_get response ''replies'' PNone) \<longrightarrow>
             map_of (rs ! 1) ''summary'' = Some (RVal (PStr ''Unable to generate summary'')))"
    by simp
  have d: "three_documents ! 0 = doc_101" "three_documents ! 1 = doc_104"
    by (simp_all add: three_documents_def)
  from a0 have s0: "map_of (rs ! 0) ''summary'' = Some (RVal (PStr ''Error generating summary''))"
    unfolding flaky_generation(1) sum.case by blast
  have "\<not> truthy (dict_get [(''replies'', PList []), (''meta'', PList [])] ''replies'' PNone)"
    by (simp add: dict_get_def)
  moreover from a1 have
    "\<not> truthy (dict_get [(''replies'', PList []), (''meta'', PList [])] ''replies'' PNone) \<longrightarrow>
     map_of (rs ! 1) ''summary'' = Some (RVal (PStr ''Unable to generate summary''))"
    unfolding flaky_generation(2) sum.case by blast
  ultimately have s1:
    "map_of (rs ! 1) ''summary'' = Some (RVal (PStr ''Unable to generate summary''))"
    by blast
  from a0 a1 have k: "map fst (rs ! 0) = [''document'', ''summary'']"
    "map_of (rs ! 0) ''document'' = Some (RDoc doc_101)"
    "map fst (rs ! 1) = [''document'', ''summary'']"
    "map_of (rs ! 1) ''document'' = Some (RDoc doc_104)"
    unfolding d by blast+
  from len l3 have l: "length rs = 3" by (simp only:)
  show ?thesis
    by (rule exI [of _ rs]) (simp only: run s0 s1 k l simp_thms)
qed

text \<open>
  Claim C1 as stated fails: when the generation for the only document raises, the entry
  returned for it has the keys \<open>document\<close> and \<open>summary\<close> and no value under
  \<open>failed\<close>.
\<close>

theorem result_has_no_failed_field:
  "DocumentLoopProcessor_run example_config flaky_generator (Inr ''T'') [doc_101] =
     Inr [[(''document'', RDoc doc_101),
           (''summary'', RVal (PStr ''Error generating summary''))]] \<and>
   map_of [(''document'', RDoc doc_101),
           (''summary'', RVal (PStr ''Error generating summary''))] ''failed'' = None"
  by (simp add: DocumentLoopProcessor_run_def loop_body_def try_block_def flaky_generator_def)

text \<open>
  Claim C4. For every list of documents, the empty list included, the summarization stage
  returns a list of the same length, and the entry at each position holds the input
  document of that position.
\<close>

theorem run_same_length_same_order:
  "\<exists>rs. DocumentLoopProcessor_run cfg w (Inr template) documents = Inr rs \<and>
        length rs = length documents \<and>
        map (\<lambda>r. map_of r ''document'') rs = map (\<lambda>d. Some (RDoc d)) documents"
proof -
  let ?rs = "for_loop cfg w template 0 documents []"
  have "map (\<lambda>r. map_of r ''document'') ?rs = map (\<lambda>d. Some (RDoc d)) documents"
    by (rule nth_equalityI) (simp_all add: for_loop_length for_loop_nth loop_body_document)
  then show ?thesis
    by (simp add: DocumentLoopProcessor_run_def for_loop_length)
qed

theorem run_same_length_same_order_witness:
  "(\<exists>rs. DocumentLoopProcessor_run example_config flaky_generator (Inr ''T'') three_documents
           = Inr rs \<and> length rs = 3 \<and>
         map (\<lambda>r. map_of r ''document'') rs =
           [Some (RDoc doc_101), Some (RDoc doc_104), Some (RDoc doc_101)]) \<and>
   (\<exists>rs. DocumentLoopProcessor_run example_config flaky_generator (Inr ''T'') [] = Inr rs \<and>
         length rs = 0)"
  using run_same_length_same_order [of example_config flaky_generator "''T''" three_documents]
    run_same_length_same_order [of example_config flaky_generator "''T''" "[]"]
  by (simp add: three_documents_def numeral_3_eq_3)

text \<open>
  Claim C6. For the document at every position of the input: when the generation returns
  a reply dictionary whose \<open>replies\<close> list is not empty, the summary is the first
  reply; when the \<open>replies\<close> list is empty, the summary is
  \<open>Unable to generate summary\<close>; when the generation raises, the summary is
  \<open>Error generating summary\<close>. In each case the loop goes on: the list returned has
  one entry for every input document.
\<close>

theorem summary_by_outcome:
  assumes "DocumentLoopProcessor_run cfg w (Inr template) documents = Inr rs"
    and "i < length documents"
  shows "length rs = length documents \<and>
    (\<forall>response r rest.
        generation cfg w template i (documents ! i) = Inr response \<and>
        map_of response ''replies'' = Some (PList (r # rest)) \<longrightarrow>
        map_of (rs ! i) ''summary'' = Some (RVal r)) \<and>
    (\<forall>response.
        generation cfg w template i (documents ! i) = Inr response \<and>
        map_of response ''replies'' = Some (PList []) \<longrightarrow>
        map_of (rs ! i) ''summary'' = Some (RVal (PStr ''Unable to generate summary''))) \<and>
    (\<forall>e. generation cfg w template i (documents ! i) = Inl e \<longrightarrow>
        map_of (rs ! i) ''summary'' = Some (RVal (PStr ''Error generating summary'')))"
proof -
  have rs: "rs = for_loop cfg w template 0 documents []"
    using assms(1) by (simp add: DocumentLoopProcessor_run_def)
  have nth: "rs ! i = loop_body cfg w template i (documents ! i)"
    using assms(2) by (simp add: rs for_loop_nth)
  have "length rs = length documents"
    by (simp add: rs for_loop_length)
  moreover have "map_of (rs ! i) ''summary'' = Some (RVal r)"
    if "generation cfg w template i (documents ! i) = Inr response"
      and "map_of response ''replies'' = Some (PList (r # rest))" for response r rest
    using that by (simp add: nth loop_body_first_reply)
  moreover have "map_of (rs ! i) ''summary'' = Some (RVal (PStr ''Unable to generate summary''))"
    if "generation cfg w template i (documents ! i) = Inr response"
      and "map_of response ''replies'' = Some (PList [])" for response
  proof -
    from that(2) have "\<not> truthy (dict_get response ''replies'' PNone)"
      by (simp add: dict_get_def)
    with that(1) show ?thesis by (simp add: nth loop_body_no_reply)
  qed
  moreover have "map_of (rs ! i) ''summary'' = Some (RVal (PStr ''Error generating summary''))"
    if "generation cfg w template i (documents ! i) = Inl e" for e
    using that by (simp add: nth loop_body_raised)
  ultimately show ?thesis by blast
qed

theorem summary_by_outcome_witness:
  "\<exists>rs. DocumentLoopProcessor_run example_config flaky_generator (Inr ''T'') three_documents
          = Inr rs \<and>
     length rs = 3 \<and>
     map_of (rs ! 0) ''summary'' = Some (RVal (PStr ''Error generating summary'')) \<and>
     map_of (rs ! 1) ''summary'' = Some (RVal (PStr ''Unable to generate summary'')) \<and>
     map_of (rs ! 2) ''summary'' = Some (RVal (PStr ''S2''))"
proof -
  let ?rs = "for_loop example_config flaky_generator ''T'' 0 three_documents []"
  have run: "DocumentLoopProcessor_run example_config flaky_generator (Inr ''T'')
      three_documents = Inr ?rs"
    by (simp add: DocumentLoopProcessor_run_def)
  have l: "0 < length three_documents" "1 < length three_documents"
    "2 < length three_documents"
    by (simp_all add: three_documents_def)
  have r: "map_of [(''replies'', PList []), (''meta'', PList [])] ''replies'' = Some (PList [])"
    "map_of [(''replies'', PList [PStr ''S2'', PStr ''S2b'']), (''meta'', PList [])] ''replies''
       = Some (PList [PStr ''S2'', PStr ''S2b''])"
    by simp_all
  from summary_by_outcome [OF run l(1)] flaky_generation(1)
  have "map_of (?rs ! 0) ''summary'' = Some (RVal (PStr ''Error generating summary''))"
    by blast
  moreover from summary_by_outcome [OF run l(2)] flaky_generation(2) r(1)
  have "map_of (?rs ! 1) ''summary'' = Some (RVal (PStr ''Unable to generate summary''))"
    by blast
  moreover from summary_by_outcome [OF run l(3)] flaky_generation(3) r(2)
  have "map_of (?rs ! 2) ''summary'' = Some (RVal (PStr ''S2''))"
    by blast
  moreover from summary_by_outcome [OF run l(1)] have "length ?rs = 3"
    by (simp add: three_documents_def)
  ultimately show ?thesis using run by blast
qed

text \<open>
  Claim C7. Take two runs on the same documents whose prompt builder and generator answer
  alike at every position but \<open>i\<close>. Then the entries of the two results are the same at
  every position \<open>j\<close> other than \<open>i\<close>: what happens to document \<open>i\<close> changes neither
  the summary nor the failure of another document.
\<close>

theorem failure_isolated:
  assumes "\<forall>k. k \<noteq> i \<longrightarrow> render w k = render w' k \<and> llm_run w k = llm_run w' k"
    and "j \<noteq> i" and "j < length documents"
  shows "\<exists>rs rs'. DocumentLoopProcessor_run cfg w (Inr template) documents = Inr rs \<and>
           DocumentLoopProcessor_run cfg w' (Inr template) documents = Inr rs' \<and>
           length rs = length documents \<and> length rs' = length documents \<and>
           rs ! j = rs' ! j"
proof -
  have "loop_body cfg w template j (documents ! j) = loop_body cfg w' template j (documents ! j)"
    using assms(1,2) by (intro loop_body_cong) simp_all
  then show ?thesis
    using assms(3) by (simp add: DocumentLoopProcessor_run_def for_loop_length for_loop_nth)
qed

theorem failure_isolated_witness:
  "\<exists>rs rs'.
     DocumentLoopProcessor_run example_config flaky_generator (Inr ''T'') three_documents
       = Inr rs \<and>
     DocumentLoopProcessor_run example_config steady_generator (Inr ''T'') three_documents
       = Inr rs' \<and>
     rs ! 0 \<noteq> rs' ! 0 \<and> rs ! 1 = rs' ! 1 \<and> rs ! 2 = rs' ! 2"
proof -
  have same: "\<forall>k. k \<noteq> 0 \<longrightarrow>
      render flaky_generator k = render steady_generator k \<and>
      llm_run flaky_generator k = llm_run steady_generator k"
    by (simp add: flaky_generator_def steady_generator_def)
  have l: "1 < length three_documents" "2 < length three_documents"
    by (simp_all add: three_documents_def)
  have n: "(1::nat) \<noteq> 0" "(2::nat) \<noteq> 0" by simp_all
  from failure_isolated [OF same n(1) l(1), of example_config "''T''"]
    failure_isolated [OF same n(2) l(2), of example_config "''T''"]
  show ?thesis
    by (simp add: flaky_run steady_run)
qed

subsection \<open>Ingestion stage\<close>

text \<open>
  Claim C2. A story ID yields a document only if the details fetched for it have
  \<open>type\<close> equal to \<open>story\<close> and a \<open>url\<close> that is present and not empty, and the
  extraction on the page of that \<open>url\<close> returned a text that is not empty, which is the
  content of the document. So an item that fails one of these conditions yields no
  document, and every document in the output of the ingestion stage has a content that is
  not empty and is the document of one of the story IDs processed.
\<close>

theorem document_only_for_linked_story:
  "(\<forall>doc. process_story w sid = Inr (Some doc) \<longrightarrow>
      (\<exists>details url html.
          item w sid = Inr (Some details) \<and>
          map_of details ''type'' = Some (PStr ''story'') \<and>
          map_of details ''url'' = Some url \<and> truthy url \<and>
          page w url = Inr html \<and>
          trafilatura_extract w html = Inr (Some (content doc)) \<and>
          content doc \<noteq> [])) \<and>
   (\<forall>ids docs. run_async w finish k = (ids, Inr docs) \<longrightarrow>
      (\<forall>doc \<in> set docs. content doc \<noteq> [] \<and>
         (\<exists>sid \<in> set ids. process_story w sid = Inr (Some doc))))"
proof -
  have one: "\<exists>details url html.
          item w s = Inr (Some details) \<and>
          map_of details ''type'' = Some (PStr ''story'') \<and>
          map_of details ''url'' = Some url \<and> truthy url \<and>
          page w url = Inr html \<and>
          trafilatura_extract w html = Inr (Some (content doc)) \<and>
          content doc \<noteq> []" if "process_story w s = Inr (Some doc)" for s doc
  proof -
    from process_story_SomeD [OF that] obtain details url article where
      d: "fetch_story_details w s = Some details"
      "map_of details ''type'' = Some (PStr ''story'')"
      "map_of details ''url'' = Some url" "truthy url"
      "extract_article_text w url = Some article" "content doc = article"
      by auto
    from extract_article_text_SomeD [OF d(5)] fetch_story_details_SomeD [OF d(1)] d
    show ?thesis by auto
  qed
  have two: "content doc \<noteq> [] \<and> (\<exists>sid \<in> set ids. process_story w sid = Inr (Some doc))"
    if r: "run_async w finish k = (ids, Inr docs)" and m: "doc \<in> set docs" for ids docs doc
  proof -
    from run_async_Inr [OF r]
    have p: "map (process_story w) ids = map Inr (map (document_of w) ids)"
      and docs: "docs = List.map_filter (document_of w) ids" by simp_all
    from m obtain sid where sid: "sid \<in> set ids" "document_of w sid = Some doc"
      unfolding docs map_filter_def by auto
    from p sid(1) have "process_story w sid = Inr (document_of w sid)"
      by (auto simp: list_eq_iff_nth_eq in_set_conv_nth)
    with sid have ps: "process_story w sid = Inr (Some doc)" by simp
    from one [OF ps] sid(1) ps show ?thesis by auto
  qed
  from one two show ?thesis by blast
qed

theorem document_only_for_linked_story_witness:
  "process_story feed_world 101 = Inr (Some doc_101) \<and>
   (\<exists>details url html.
      item feed_world 101 = Inr (Some details) \<and>
      map_of details ''type'' = Some (PStr ''story'') \<and>
      map_of details ''url'' = Some url \<and> truthy url \<and>
      page feed_world url = Inr html \<and>
      trafilatura_extract feed_world html = Inr (Some (content doc_101)) \<and>
      content doc_101 \<noteq> []) \<and>
   run_async feed_world in_order 4 = ([101, 102, 103, 104], Inr [doc_101, doc_104]) \<and>
   content doc_104 \<noteq> [] \<and>
   (\<exists>sid \<in> set [101, 102, 103, 104]. process_story feed_world sid = Inr (Some doc_104))"
proof -
  note c = document_only_for_linked_story [of feed_world 101 in_order 4]
  from c process_story_101 have "\<exists>details url html.
      item feed_world 101 = Inr (Some details) \<and>
      map_of details ''type'' = Some (PStr ''story'') \<and>
      map_of details ''url'' = Some url \<and> truthy url \<and>
      page feed_world url = Inr html \<and>
      trafilatura_extract feed_world html = Inr (Some (content doc_101)) \<and>
      content doc_101 \<noteq> []"
    by blast
  moreover from c feed_run_in_order
  have "\<forall>doc \<in> set [doc_101, doc_104]. content doc \<noteq> [] \<and>
         (\<exists>sid \<in> set [101, 102, 103, 104]. process_story feed_world sid = Inr (Some doc))"
    by blast
  then have "content doc_104 \<noteq> [] \<and>
     (\<exists>sid \<in> set [101, 102, 103, 104]. process_story feed_world sid = Inr (Some doc_104))"
    by simp
  ultimately show ?thesis
    using process_story_101 feed_run_in_order by blast
qed

text \<open>
  Claim C3. When the ingestion stage returns, its output is the list of the documents of
  the story IDs it processed, in the order of those IDs, with the IDs that yield no
  document dropped; it is the same under any other order of completion of the tasks. So
  when an ID stands before another one in the truncated index list and both yield a
  document, the document of the first stands before the document of the second.
\<close>

theorem output_in_index_order:
  assumes "run_async w finish k = (ids, Inr docs)"
  shows "run_async w finish' k = (ids, Inr docs) \<and>
         docs = List.map_filter (document_of w) ids \<and>
         (\<forall>i j a b. i < j \<and> j < length ids \<and>
            document_of w (ids ! i) = Some a \<and> document_of w (ids ! j) = Some b \<longrightarrow>
            (\<exists>i' j'. i' < j' \<and> j' < length docs \<and> docs ! i' = a \<and> docs ! j' = b))"
proof -
  from run_async_Inr [OF assms]
  have m: "map (process_story w) ids = map Inr (map (document_of w) ids)"
    and docs: "docs = List.map_filter (document_of w) ids" by simp_all
  have "run_async w finish' k = (ids, Inr docs)"
  proof (cases "newstories w")
    case (Inl e)
    with assms show ?thesis by (simp add: run_async_def)
  next
    case (Inr top_story_ids)
    with assms have ids: "ids = py_slice_to top_story_ids k"
      by (auto simp: run_async_def Let_def)
    from run_async_InrI [OF Inr m [unfolded ids]] show ?thesis
      by (simp add: ids docs)
  qed
  moreover have "\<exists>i' j'. i' < j' \<and> j' < length docs \<and> docs ! i' = a \<and> docs ! j' = b"
    if "i < j" "j < length ids" "document_of w (ids ! i) = Some a"
       "document_of w (ids ! j) = Some b" for i j a b
    unfolding docs using that by (rule map_filter_order)
  ultimately show ?thesis using docs by blast
qed

theorem output_in_index_order_witness:
  "run_async feed_world in_order 4 = ([101, 102, 103, 104], Inr [doc_101, doc_104]) \<and>
   run_async feed_world last_first 4 = ([101, 102, 103, 104], Inr [doc_101, doc_104]) \<and>
   completion_order last_first 4 = [3, 2, 1, 0] \<and>
   (\<exists>i' j'. i' < j' \<and> j' < length [doc_101, doc_104] \<and>
      [doc_101, doc_104] ! i' = doc_101 \<and> [doc_101, doc_104] ! j' = doc_104)"
proof -
  note c = output_in_index_order [OF feed_run_in_order, of last_first]
  have d: "document_of feed_world ([101, 102, 103, 104] ! 0) = Some doc_101"
    "document_of feed_world ([101, 102, 103, 104] ! 3) = Some doc_104"
    by (simp_all add: document_of_def process_story_101 process_story_104)
  have "(0::nat) < 3 \<and> 3 < length [101, 102, 103, 104 :: int]" by simp
  with c d have "\<exists>i' j'. i' < j' \<and> j' < length [doc_101, doc_104] \<and>
      [doc_101, doc_104] ! i' = doc_101 \<and> [doc_101, doc_104] ! j' = doc_104"
    by blast
  moreover have "completion_order last_first 4 = [3, 2, 1, 0]"
    by (simp add: completion_order_def last_first_def upt_conv_Cons)
  ultimately show ?thesis
    using c feed_run_in_order by blast
qed



text \<open>
  Claim C8. For every \<open>K\<close> of at least 1, the ingestion stage returns at most \<open>K\<close>
  documents: the tasks are created for the first \<open>K\<close> story IDs of the index, so there
  are at most \<open>K\<close> of them, and the output has at most one document for each.
\<close>

theorem at_most_k_documents:
  assumes "1 \<le> k" and "run_async w finish k = (ids, Inr docs)"
  shows "length docs \<le> nat k \<and> length ids \<le> nat k \<and> length docs \<le> length ids \<and>
         (case newstories w of
            Inr top_story_ids \<Rightarrow> ids = take (nat k) top_story_ids
          | Inl e \<Rightarrow> ids = [])"
proof -
  from run_async_Inr [OF assms(2)] have docs: "docs = List.map_filter (document_of w) ids"
    by simp
  have le: "length docs \<le> length ids"
    unfolding docs map_filter_def by simp
  have ids: "(case newstories w of
      Inr top_story_ids \<Rightarrow> ids = take (nat k) top_story_ids | Inl e \<Rightarrow> ids = [])"
    using assms by (auto simp: run_async_def Let_def py_slice_to_def split: sum.splits)
  then have "length ids \<le> nat k"
    by (auto split: sum.splits)
  with le ids show ?thesis by simp
qed

theorem at_most_k_documents_witness:
  "(1::int) \<le> 4 \<and>
   run_async feed_world in_order 4 = ([101, 102, 103, 104], Inr [doc_101, doc_104]) \<and>
   length [doc_101, doc_104] \<le> nat 4 \<and> length [101, 102, 103, 104 :: int] \<le> nat 4"
proof -
  have k: "(1::int) \<le> 4" by simp
  from at_most_k_documents [OF k feed_run_in_order] k feed_run_in_order
  show ?thesis by simp
qed



text \<open>
  Claim C10. The metadata of every document the ingestion stage builds has exactly the
  seven keys \<open>title\<close>, \<open>url\<close>, \<open>score\<close>, \<open>descendants\<close>, \<open>by\<close>, \<open>time_iso\<close>
  and \<open>id\<close>. Its \<open>id\<close> is the story ID of the task, its \<open>url\<close> is the \<open>url\<close> of the
  details fetched, which is not empty, and its \<open>score\<close> and \<open>descendants\<close> are those
  of the details, or 0 when the details have none.
\<close>

theorem metadata_keys:
  assumes "process_story w sid = Inr (Some doc)"
  shows "\<exists>details url. item w sid = Inr (Some details) \<and>
    map fst (meta doc) =
      [''title'', ''url'', ''score'', ''descendants'', ''by'', ''time_iso'', ''id''] \<and>
    map_of (meta doc) ''id'' = Some (PInt sid) \<and>
    map_of details ''url'' = Some url \<and> truthy url \<and>
    map_of (meta doc) ''url'' = Some url \<and>
    map_of (meta doc) ''score'' =
      Some (case map_of details ''score'' of None \<Rightarrow> PInt 0 | Some v \<Rightarrow> v) \<and>
    map_of (meta doc) ''descendants'' =
      Some (case map_of details ''descendants'' of None \<Rightarrow> PInt 0 | Some v \<Rightarrow> v)"
proof -
  from process_story_SomeD [OF assms] obtain details url time_iso article where
    d: "fetch_story_details w sid = Some details"
    and u: "map_of details ''url'' = Some url" "truthy url"
    and doc: "doc = \<lparr>content = article,
            meta = [(''title'', dict_get details ''title'' PNone),
                    (''url'', url),
                    (''score'', dict_get details ''score'' (PInt 0)),
                    (''descendants'', dict_get details ''descendants'' (PInt 0)),
                    (''by'', dict_get details ''by'' PNone),
                    (''time_iso'', time_iso),
                    (''id'', PInt sid)]\<rparr>"
    by blast
  from fetch_story_details_SomeD [OF d] u show ?thesis
    by (intro exI [of _ details] exI [of _ url]) (simp add: doc dict_get_def)
qed

theorem metadata_keys_witness:
  "process_story feed_world 104 = Inr (Some doc_104) \<and>
   map fst (meta doc_104) =
     [''title'', ''url'', ''score'', ''descendants'', ''by'', ''time_iso'', ''id''] \<and>
   map_of (meta doc_104) ''id'' = Some (PInt 104) \<and>
   map_of (meta doc_104) ''url'' = Some (PStr ''https://c.example'') \<and>
   map_of (meta doc_104) ''score'' = Some (PInt 0) \<and>
   map_of (meta doc_104) ''descendants'' = Some (PInt 3)"
proof -
  have i4: "item feed_world 104 = Inr (Some story_104)"
    by (simp add: feed_world_def)
  from metadata_keys [OF process_story_104] i4 process_story_104 show ?thesis
    by (auto simp: story_104_def)
qed

end
